theory Spec2Isabelle
  imports Complex_Main "HOL-Library.Finite_Map"
begin

section \<open>Strings\<close>

text \<open>
  A JavaScript string is modelled as a \<^typ>\<open>string\<close>, a list of code units below 256
  (the Latin-1 range). The functions of \<open>String.prototype\<close> that \<open>script.js\<close> calls are
  written out on that range.
\<close>

definition code :: "char \<Rightarrow> nat" where
  "code c = of_char c"

text \<open>
  \<open>trim\<close> removes WhiteSpace and LineTerminator code units from both ends: TAB, LF, VT, FF,
  CR, SP and NBSP are the ones below 256.
\<close>

definition isTrimSpace :: "char \<Rightarrow> bool" where
  "isTrimSpace c = (code c \<in> {9, 10, 11, 12, 13, 32, 160})"

definition trim :: "string \<Rightarrow> string" where
  "trim s = rev (dropWhile isTrimSpace (rev (dropWhile isTrimSpace s)))"

text \<open>
  \<open>toLowerCase\<close>: A-Z and the Latin-1 capitals 0xC0-0xDE (but not the multiplication
  sign 0xD7) move up by 0x20.
\<close>

definition lowerChar :: "char \<Rightarrow> char" where
  "lowerChar c =
     (let n = code c
      in if (65 \<le> n \<and> n \<le> 90) \<or> (192 \<le> n \<and> n \<le> 222 \<and> n \<noteq> 215)
         then char_of (n + 32) else c)"

definition toLowerCase :: "string \<Rightarrow> string" where
  "toLowerCase s = map lowerChar s"

fun startsWith :: "string \<Rightarrow> string \<Rightarrow> bool" where
  "startsWith s [] = True"
| "startsWith [] (p # ps) = False"
| "startsWith (c # cs) (p # ps) = (c = p \<and> startsWith cs ps)"

fun includes_js :: "string \<Rightarrow> string \<Rightarrow> bool" where
  "includes_js [] sub = (sub = [])"
| "includes_js (c # cs) sub = (startsWith (c # cs) sub \<or> includes_js cs sub)"

text \<open>
  \<open>s.split(sep)\<close> for a one-character separator: the pieces between the separators,
  always at least one piece.
\<close>

fun split_js :: "char \<Rightarrow> string \<Rightarrow> string list" where
  "split_js sep [] = [[]]"
| "split_js sep (c # cs) =
     (if c = sep then [] # split_js sep cs
      else (case split_js sep cs of
              [] \<Rightarrow> [[c]]
            | p # ps \<Rightarrow> (c # p) # ps))"

text \<open>
  Reading \<open>xs[i]\<close>: \<open>None\<close> stands for \<open>undefined\<close>, the value JavaScript gives out of
  range.
\<close>

definition at_index :: "'a list \<Rightarrow> nat \<Rightarrow> 'a option" where
  "at_index xs i = (if i < length xs then Some (xs ! i) else None)"

text \<open>\<open>Number.prototype.toString\<close> on a non-negative integer: its decimal digits.\<close>

definition digitChar :: "nat \<Rightarrow> char" where
  "digitChar d = char_of (48 + d)"

function toString :: "nat \<Rightarrow> string" where
  "toString n = (if n < 10 then [digitChar n] else toString (n div 10) @ [digitChar (n mod 10)])"
  by pat_completeness auto
termination
  by (relation "measure (\<lambda>n. n)") auto

declare toString.simps [simp del]

section \<open>Data model\<close>

text \<open>
  The task objects of \<open>script.js\<close>. \<open>priority\<close> and \<open>status\<close> hold one of a fixed set of
  string constants; \<open>priorityName\<close> and \<open>statusName\<close> give the string the source compares
  with. \<open>createdAt\<close> is the ISO-8601 string of \<open>new Date().toISOString()\<close>, held as the
  number of milliseconds since the epoch that it denotes (what \<open>new Date(createdAt)\<close>
  reads back). \<open>dueDate\<close> is a string or \<open>null\<close>.
\<close>

datatype priority = Low | Medium | High

datatype status = Pending | Completed

fun priorityName :: "priority \<Rightarrow> string" where
  "priorityName Low = ''Low''"
| "priorityName Medium = ''Medium''"
| "priorityName High = ''High''"

fun statusName :: "status \<Rightarrow> string" where
  "statusName Pending = ''Pending''"
| "statusName Completed = ''Completed''"

record task =
  id_t :: string
  title :: string
  description :: string
  priority :: priority
  dueDate :: "string option"
  status :: status
  createdAt :: int

section \<open>Filtering and sorting\<close>

text \<open>
  \<open>Array.prototype.sort(compareFn)\<close>: since ECMAScript 2019 the sort is stable, and for a
  consistent comparator the result is the one stable ordering of the input. It is modelled
  by insertion from the right: an element goes before the first element of the sorted rest
  that the comparator does not put before it.
\<close>

fun insertBy :: "('a \<Rightarrow> 'a \<Rightarrow> int) \<Rightarrow> 'a \<Rightarrow> 'a list \<Rightarrow> 'a list" where
  "insertBy cmp x [] = [x]"
| "insertBy cmp x (y # ys) = (if cmp x y \<le> 0 then x # y # ys else y # insertBy cmp x ys)"

fun sortBy :: "('a \<Rightarrow> 'a \<Rightarrow> int) \<Rightarrow> 'a list \<Rightarrow> 'a list" where
  "sortBy cmp [] = []"
| "sortBy cmp (x # xs) = insertBy cmp x (sortBy cmp xs)"

fun prioMapDesc :: "priority \<Rightarrow> int" where
  "prioMapDesc High = 3"
| "prioMapDesc Medium = 2"
| "prioMapDesc Low = 1"

fun prioMapAsc :: "priority \<Rightarrow> int" where
  "prioMapAsc High = 1"
| "prioMapAsc Medium = 2"
| "prioMapAsc Low = 3"

fun statusMap :: "status \<Rightarrow> int" where
  "statusMap Pending = 1"
| "statusMap Completed = 2"

text \<open>The comparator passed to \<open>sort\<close>, a \<open>switch\<close> on the value of the sort control.\<close>

definition comparator :: "string \<Rightarrow> task \<Rightarrow> task \<Rightarrow> int" where
  "comparator sortValue a b =
     (if sortValue = ''date-desc'' then createdAt b - createdAt a
      else if sortValue = ''date-asc'' then createdAt a - createdAt b
      else if sortValue = ''priority-desc'' then prioMapDesc (priority b) - prioMapDesc (priority a)
      else if sortValue = ''priority-asc'' then prioMapAsc (priority b) - prioMapAsc (priority a)
      else if sortValue = ''status-desc'' then statusMap (status a) - statusMap (status b)
      else 0)"

definition searchStage :: "string \<Rightarrow> task list \<Rightarrow> task list" where
  "searchStage searchTerm currentTasks =
     (if searchTerm \<noteq> []
      then filter (\<lambda>t. includes_js (toLowerCase (title t)) searchTerm
                       \<or> includes_js (toLowerCase (description t)) searchTerm) currentTasks
      else currentTasks)"

definition filterStage :: "string \<Rightarrow> task list \<Rightarrow> task list" where
  "filterStage filterValue currentTasks =
     (if filterValue \<noteq> ''All''
      then (if filterValue = ''Completed'' \<or> filterValue = ''Pending''
            then filter (\<lambda>t. statusName (status t) = filterValue) currentTasks
            else if startsWith filterValue ''Priority-''
            then filter (\<lambda>t. Some (priorityName (priority t))
                              = at_index (split_js (CHR ''-'') filterValue) 1) currentTasks
            else currentTasks)
      else currentTasks)"

definition sortStage :: "string \<Rightarrow> task list \<Rightarrow> task list" where
  "sortStage sortValue currentTasks = sortBy (comparator sortValue) currentTasks"

text \<open>The three controls that \<open>getFilteredAndSortedTasks\<close> reads.\<close>

record controls =
  taskSearchInput :: string
  taskFilterSelect :: string
  taskSortSelect :: string

definition getFilteredAndSortedTasks :: "controls \<Rightarrow> task list \<Rightarrow> task list" where
  "getFilteredAndSortedTasks ui tasks =
     (let searchTerm = trim (toLowerCase (taskSearchInput ui));
          filterValue = taskFilterSelect ui;
          sortValue = taskSortSelect ui
      in sortStage sortValue (filterStage filterValue (searchStage searchTerm tasks)))"

section \<open>The task array and its operations\<close>

text \<open>
  What a call can end with other than a normal return. \<open>SyntaxError\<close> is what
  \<open>JSON.parse\<close> throws. \<open>ValidationError\<close> and \<open>NotFoundError\<close> are the error names of the
  specification; no \<open>throw\<close> of \<open>script.js\<close> raises them.
\<close>

datatype error = SyntaxError | ValidationError | NotFoundError

text \<open>
  The module state: the \<open>tasks\<close> array, the array last written to \<open>localStorage\<close> under
  the key \<open>tasks\<close> by \<open>saveTasks\<close> (\<open>None\<close> while nothing has been written; the blob is
  \<open>JSON.stringify\<close> of that array), and the toasts shown so far, as message and type, the
  oldest first.
\<close>

record store =
  tasks :: "task list"
  saved :: "task list option"
  toasts :: "(string \<times> string) list"

definition generateUniqueId :: "nat \<Rightarrow> string" where
  \<comment> \<open>\<open>Date.now().toString()\<close>; the argument is what \<open>Date.now()\<close> reads.\<close>
  "generateUniqueId now = toString now"

definition saveTasks :: "store \<Rightarrow> store" where
  "saveTasks s = s\<lparr>saved := Some (tasks s)\<rparr>"

definition showToast :: "string \<Rightarrow> string \<Rightarrow> store \<Rightarrow> store" where
  "showToast message type s = s\<lparr>toasts := toasts s @ [(message, type)]\<rparr>"

text \<open>
  The operations below mutate the module state and return \<open>undefined\<close>; the model
  returns the new state under \<open>Inr\<close>. Rendering, the success sound and the animation
  listeners read the state without changing it and are left out.
\<close>

text \<open>\<open>findIndex\<close>: the first index whose element satisfies the test; \<open>None\<close> is \<open>-1\<close>.\<close>

fun findIndex :: "('a \<Rightarrow> bool) \<Rightarrow> 'a list \<Rightarrow> nat option" where
  "findIndex P [] = None"
| "findIndex P (x # xs) = (if P x then Some 0 else map_option Suc (findIndex P xs))"

record taskData =
  title_d :: string
  description_d :: string
  dueDate_d :: string
  priority_d :: priority

text \<open>
  \<open>addTask\<close> reads the clock twice: \<open>nowId\<close> is what \<open>Date.now()\<close> returns inside
  \<open>generateUniqueId\<close>, \<open>nowCreated\<close> the time of \<open>new Date()\<close>. \<open>taskData.dueDate || null\<close>
  turns the empty string into \<open>null\<close>.
\<close>

definition addTask :: "nat \<Rightarrow> nat \<Rightarrow> taskData \<Rightarrow> store \<Rightarrow> error + store" where
  "addTask nowId nowCreated taskData s =
     (let newTask = \<lparr> id_t = generateUniqueId nowId,
                       title = title_d taskData,
                       description = description_d taskData,
                       priority = priority_d taskData,
                       dueDate = (if dueDate_d taskData = [] then None
                                  else Some (dueDate_d taskData)),
                       status = Pending,
                       createdAt = int nowCreated \<rparr>;
          s1 = s\<lparr>tasks := newTask # tasks s\<rparr>;
          s2 = saveTasks s1
      in Inr (showToast ''Task added successfully!'' ''success'' s2))"

definition toggleTaskStatus :: "string \<Rightarrow> store \<Rightarrow> error + store" where
  "toggleTaskStatus i s =
     (case findIndex (\<lambda>t. id_t t = i) (tasks s) of
        None \<Rightarrow> Inr s
      | Some taskIndex \<Rightarrow>
          (let t = tasks s ! taskIndex;
               isCompleted = (status t = Completed);
               t' = t\<lparr>status := (if isCompleted then Pending else Completed)\<rparr>;
               s1 = s\<lparr>tasks := (tasks s)[taskIndex := t']\<rparr>;
               s2 = saveTasks s1
           in Inr (showToast (''Task marked as '' @ statusName (status t') @ ''.'') ''info'' s2)))"

text \<open>
  The second argument of \<open>updateTask\<close> is any object; each property of a task may be
  present in it (\<open>Some\<close>) or not (\<open>None\<close>). \<open>spread\<close> is \<open>{ ...task, ...updatedData }\<close>: a
  property of \<open>updatedData\<close> replaces the task's.
\<close>

record updatedData =
  id_u :: "string option"
  title_u :: "string option"
  description_u :: "string option"
  priority_u :: "priority option"
  dueDate_u :: "string option option"
  status_u :: "status option"
  createdAt_u :: "int option"

definition spread :: "task \<Rightarrow> updatedData \<Rightarrow> task" where
  "spread t u =
     \<lparr> id_t = (case id_u u of None \<Rightarrow> id_t t | Some v \<Rightarrow> v),
       title = (case title_u u of None \<Rightarrow> title t | Some v \<Rightarrow> v),
       description = (case description_u u of None \<Rightarrow> description t | Some v \<Rightarrow> v),
       priority = (case priority_u u of None \<Rightarrow> priority t | Some v \<Rightarrow> v),
       dueDate = (case dueDate_u u of None \<Rightarrow> dueDate t | Some v \<Rightarrow> v),
       status = (case status_u u of None \<Rightarrow> status t | Some v \<Rightarrow> v),
       createdAt = (case createdAt_u u of None \<Rightarrow> createdAt t | Some v \<Rightarrow> v) \<rparr>"

definition updateTask :: "string \<Rightarrow> updatedData \<Rightarrow> store \<Rightarrow> error + store" where
  "updateTask i u s =
     (case findIndex (\<lambda>t. id_t t = i) (tasks s) of
        None \<Rightarrow> Inr s
      | Some taskIndex \<Rightarrow>
          (let s1 = s\<lparr>tasks := (tasks s)[taskIndex := spread (tasks s ! taskIndex) u]\<rparr>;
               s2 = saveTasks s1
           in Inr (showToast ''Task updated successfully.'' ''info'' s2)))"

section \<open>Event handlers\<close>

record taskForm =
  taskTitleInput :: string
  taskDescriptionInput :: string
  taskDueDateInput :: string
  taskPriorityInput :: priority

definition handleTaskFormSubmit :: "nat \<Rightarrow> nat \<Rightarrow> taskForm \<Rightarrow> store \<Rightarrow> error + store" where
  "handleTaskFormSubmit nowId nowCreated form s =
     (let title' = trim (taskTitleInput form)
      in if title' = [] then Inr s
         else addTask nowId nowCreated
                \<lparr> title_d = title',
                  description_d = trim (taskDescriptionInput form),
                  dueDate_d = taskDueDateInput form,
                  priority_d = taskPriorityInput form \<rparr> s)"

record editForm =
  editTaskId :: string
  editTitle :: string
  editDescription :: string
  editDueDate :: string
  editPriority :: priority

definition handleEditFormSubmit :: "editForm \<Rightarrow> store \<Rightarrow> error + store" where
  "handleEditFormSubmit form s =
     updateTask (editTaskId form)
       \<lparr> id_u = None,
         title_u = Some (trim (editTitle form)),
         description_u = Some (trim (editDescription form)),
         priority_u = Some (editPriority form),
         dueDate_u = Some (Some (editDueDate form)),
         status_u = None,
         createdAt_u = None \<rparr> s"

section \<open>Startup: \<open>JSON.parse(localStorage.getItem("tasks")) || []\<close>\<close>

text \<open>
  \<open>JSON.parse\<close> is the host's parser of the JSON grammar (ECMA-404). It is written out
  here as a tokenizer followed by a pushdown recognizer that builds the value; \<open>None\<close>
  stands for the \<open>SyntaxError\<close> it throws.

  A Number value is finite, with a sign (\<open>True\<close> for minus, so that \<open>Num True 0\<close> is the
  negative zero) and a magnitude that a binary64 float can hold, or it is an infinity with
  its sign. A string holds its code units. An object is a finite map from property names to
  values: a name that is repeated in the text keeps the last of its values.
\<close>

datatype number = Num bool rat | Infinity bool

datatype json =
    JNull
  | JBool bool
  | JNumber number
  | JString "nat list"
  | JArray "json list"
  | JObject "(nat list, json) fmap"

datatype token =
    LBrace | RBrace | LBracket | RBracket | Colon | Comma
  | TString "nat list" | TNumber number | TTrue | TFalse | TNull





















text \<open>
  The recognizer reads the tokens from left to right. It keeps what may come next and a
  stack of the arrays and objects that are open, each with the elements or members read so
  far (the elements latest first); an open object also holds the key whose value is being
  read.
\<close>

datatype frame =
    InArray "json list"
  | InObject "(nat list, json) fmap" "nat list"

datatype expect = Value | ValueOrClose | KeyOrClose | Key | ColonAfterKey | CommaOrClose | End json

fun complete :: "json \<Rightarrow> frame list \<Rightarrow> expect \<times> frame list" where
  "complete v [] = (End v, [])"
| "complete v (InArray es # st) = (CommaOrClose, InArray (v # es) # st)"
| "complete v (InObject ms k # st) = (CommaOrClose, InObject (fmupd k v ms) k # st)"

definition closeArray :: "frame list \<Rightarrow> (expect \<times> frame list) option" where
  "closeArray st =
     (case st of
        InArray es # rest \<Rightarrow> Some (complete (JArray (rev es)) rest)
      | _ \<Rightarrow> None)"

definition closeObject :: "frame list \<Rightarrow> (expect \<times> frame list) option" where
  "closeObject st =
     (case st of
        InObject ms k # rest \<Rightarrow> Some (complete (JObject ms) rest)
      | _ \<Rightarrow> None)"

definition startValue :: "token \<Rightarrow> frame list \<Rightarrow> (expect \<times> frame list) option" where
  "startValue t st =
     (case t of
        TString us \<Rightarrow> Some (complete (JString us) st)
      | TNumber q \<Rightarrow> Some (complete (JNumber q) st)
      | TTrue \<Rightarrow> Some (complete (JBool True) st)
      | TFalse \<Rightarrow> Some (complete (JBool False) st)
      | TNull \<Rightarrow> Some (complete JNull st)
      | LBracket \<Rightarrow> Some (ValueOrClose, InArray [] # st)
      | LBrace \<Rightarrow> Some (KeyOrClose, InObject fmempty [] # st)
      | _ \<Rightarrow> None)"

definition startKey :: "token \<Rightarrow> frame list \<Rightarrow> (expect \<times> frame list) option" where
  "startKey t st =
     (case (t, st) of
        (TString k, InObject ms _ # rest) \<Rightarrow> Some (ColonAfterKey, InObject ms k # rest)
      | _ \<Rightarrow> None)"

fun step :: "token \<Rightarrow> expect \<times> frame list \<Rightarrow> (expect \<times> frame list) option" where
  "step t (Value, st) = startValue t st"
| "step t (ValueOrClose, st) = (if t = RBracket then closeArray st else startValue t st)"
| "step t (KeyOrClose, st) = (if t = RBrace then closeObject st else startKey t st)"
| "step t (Key, st) = startKey t st"
| "step t (ColonAfterKey, st) = (if t = Colon then Some (Value, st) else None)"
| "step t (CommaOrClose, st) =
     (if t = Comma then
        (case st of
           [] \<Rightarrow> None
         | InArray es # rest \<Rightarrow> Some (Value, st)
         | InObject ms k # rest \<Rightarrow> Some (Key, st))
      else if t = RBracket then closeArray st
      else if t = RBrace then closeObject st
      else None)"
| "step t (End v, st) = None"





section \<open>Auxiliary definitions for the proofs\<close>

text \<open>
  The comparator is, for every sort value, the difference of a rank of its two arguments;
  \<open>sortRank\<close> is that rank.
\<close>

definition sortRank :: "string \<Rightarrow> task \<Rightarrow> int" where
  "sortRank sortValue t =
     (if sortValue = ''date-desc'' then - createdAt t
      else if sortValue = ''date-asc'' then createdAt t
      else if sortValue = ''priority-desc'' then - prioMapDesc (priority t)
      else if sortValue = ''priority-asc'' then - prioMapAsc (priority t)
      else if sortValue = ''status-desc'' then statusMap (status t)
      else 0)"

definition withPriority :: "priority \<Rightarrow> task list \<Rightarrow> task list" where
  "withPriority p ts = filter (\<lambda>t. priority t = p) ts"

definition flip :: "status \<Rightarrow> status" where
  "flip st = (if st = Completed then Pending else Completed)"

text \<open>The object literal that \<open>addTask\<close> builds.\<close>

definition newTask :: "nat \<Rightarrow> nat \<Rightarrow> taskData \<Rightarrow> task" where
  "newTask nowId nowCreated taskData =
     \<lparr> id_t = generateUniqueId nowId,
       title = title_d taskData,
       description = description_d taskData,
       priority = priority_d taskData,
       dueDate = (if dueDate_d taskData = [] then None else Some (dueDate_d taskData)),
       status = Pending,
       createdAt = int nowCreated \<rparr>"

text \<open>\<open>updateTask(id, {})\<close>: an object with no property.\<close>

definition noData :: updatedData where
  "noData = \<lparr> id_u = None, title_u = None, description_u = None, priority_u = None,
              dueDate_u = None, status_u = None, createdAt_u = None \<rparr>"

subsection \<open>Concrete inputs\<close>

definition emptyStore :: store where
  "emptyStore = \<lparr> tasks = [], saved = None, toasts = [] \<rparr>"

definition task1 :: task where
  "task1 = \<lparr> id_t = ''1'', title = ''Buy milk'', description = ''2 litres'', priority = Medium,
              dueDate = None, status = Pending, createdAt = 1700000000000 \<rparr>"

definition store1 :: store where
  "store1 = \<lparr> tasks = [task1], saved = Some [task1], toasts = [] \<rparr>"

definition taskA :: task where
  "taskA = \<lparr> id_t = ''1'', title = ''A'', description = [], priority = High,
              dueDate = None, status = Pending, createdAt = 1 \<rparr>"

definition taskB :: task where
  "taskB = \<lparr> id_t = ''2'', title = ''B'', description = [], priority = Low,
              dueDate = None, status = Pending, createdAt = 2 \<rparr>"

definition taskC :: task where
  "taskC = \<lparr> id_t = ''3'', title = ''C'', description = [], priority = High,
              dueDate = None, status = Completed, createdAt = 3 \<rparr>"

definition noQuery :: "string \<Rightarrow> controls" where
  "noQuery sv = \<lparr> taskSearchInput = [], taskFilterSelect = ''All'', taskSortSelect = sv \<rparr>"

definition blankForm :: taskForm where
  "blankForm = \<lparr> taskTitleInput = ''   '', taskDescriptionInput = ''note'',
                  taskDueDateInput = [], taskPriorityInput = Medium \<rparr>"

definition milkForm :: taskForm where
  "milkForm = \<lparr> taskTitleInput = '' Buy milk '', taskDescriptionInput = ''2 litres '',
                 taskDueDateInput = ''2026-01-05T09:30'', taskPriorityInput = High \<rparr>"

definition emptyTitleData :: taskData where
  "emptyTitleData = \<lparr> title_d = [], description_d = [], dueDate_d = [], priority_d = Medium \<rparr>"

definition milkData :: taskData where
  "milkData = \<lparr> title_d = ''Buy milk'', description_d = [], dueDate_d = [], priority_d = Medium \<rparr>"

definition breadData :: taskData where
  "breadData = \<lparr> title_d = ''Buy bread'', description_d = [], dueDate_d = [], priority_d = Low \<rparr>"

definition oatEdit :: editForm where
  "oatEdit = \<lparr> editTaskId = ''1'', editTitle = '' Buy oat milk'', editDescription = ''1 litre'',
                editDueDate = [], editPriority = High \<rparr>"

section \<open>Lemmas on the model\<close>

subsection \<open>Evaluation of the string functions\<close>

lemma trim_blank: "trim ''   '' = []"
  by (simp add: trim_def isTrimSpace_def code_def)

lemma trim_milk: "trim '' Buy milk '' = ''Buy milk''"
  by (simp add: trim_def isTrimSpace_def code_def)

lemma trim_litres: "trim ''2 litres '' = ''2 litres''"
  by (simp add: trim_def isTrimSpace_def code_def)

lemma trim_oat: "trim '' Buy oat milk'' = ''Buy oat milk''"
  by (simp add: trim_def isTrimSpace_def code_def)

lemma trim_litre: "trim ''1 litre'' = ''1 litre''"
  by (simp add: trim_def isTrimSpace_def code_def)

lemma toString_now: "toString 1700000000000 = ''1700000000000''"
  by (simp add: toString.simps digitChar_def char_of_def bit_Suc_0_iff)

subsection \<open>The sort is the stable sort by rank\<close>

lemma comparator_rank: "comparator sv a b = sortRank sv a - sortRank sv b"
  by (simp add: comparator_def sortRank_def)

lemma insertBy_insort_key:
  assumes "\<And>a b. cmp a b = k a - k b"
  shows "insertBy cmp x ys = insort_key k x ys"
  by (induction ys) (simp_all add: assms)

lemma sortBy_sort_key:
  assumes "\<And>a b. cmp a b = k a - k b"
  shows "sortBy cmp xs = sort_key k xs"
  by (induction xs) (simp_all add: insertBy_insort_key [OF assms])

lemma sortStage_sort_key: "sortStage sv ts = sort_key (sortRank sv) ts"
  unfolding sortStage_def by (rule sortBy_sort_key) (rule comparator_rank)

lemma sortStage_unknown:
  assumes "sv \<notin> {''date-desc'', ''date-asc'', ''priority-desc'', ''priority-asc'', ''status-desc''}"
  shows "sortStage sv ts = ts"
proof -
  have "sortRank sv = (\<lambda>t. 0)"
    using assms by (auto simp: sortRank_def)
  then show ?thesis
    by (simp add: sortStage_sort_key sort_key_const)
qed

lemma insort_key_skip:
  "\<forall>y\<in>set ys. k y < k x \<Longrightarrow> insort_key k x (ys @ zs) = ys @ insort_key k x zs"
  by (induction ys) auto

lemma insort_key_front:
  "\<forall>z\<in>set zs. k x \<le> k z \<Longrightarrow> insort_key k x zs = x # zs"
  by (cases zs) auto

lemma sort_key_three_groups:
  fixes k :: "priority \<Rightarrow> int"
  assumes "k a < k b" "k b < k c"
  shows "sort_key (\<lambda>t. k (priority t)) ts = withPriority a ts @ withPriority b ts @ withPriority c ts"
proof -
  have abc: "a \<noteq> b" "b \<noteq> c" "a \<noteq> c"
    using assms by auto
  have all: "p = a \<or> p = b \<or> p = c" for p
    using abc by (cases p; cases a; cases b; cases c) simp_all
  show ?thesis
  proof (induction ts)
    case Nil
    then show ?case by (simp add: withPriority_def)
  next
    case (Cons x ts)
    let ?f = "\<lambda>t. k (priority t)"
    let ?A = "withPriority a ts" and ?B = "withPriority b ts" and ?C = "withPriority c ts"
    have pa: "\<forall>y\<in>set ?A. priority y = a" and pb: "\<forall>y\<in>set ?B. priority y = b"
      and pc: "\<forall>y\<in>set ?C. priority y = c"
      by (simp_all add: withPriority_def)
    have step: "sort_key ?f (x # ts) = insort_key ?f x (?A @ ?B @ ?C)"
      using Cons.IH by simp
    consider "priority x = a" | "priority x = b" | "priority x = c"
      using all by blast
    then show ?case
    proof cases
      case 1
      have "insort_key ?f x (?A @ ?B @ ?C) = x # ?A @ ?B @ ?C"
        using 1 assms pa pb pc by (intro insort_key_front) auto
      then show ?thesis
        using 1 abc step by (simp add: withPriority_def)
    next
      case 2
      have "insort_key ?f x (?A @ ?B @ ?C) = ?A @ insort_key ?f x (?B @ ?C)"
        using 2 assms pa by (intro insort_key_skip) auto
      also have "insort_key ?f x (?B @ ?C) = x # ?B @ ?C"
        using 2 assms pb pc by (intro insort_key_front) auto
      finally show ?thesis
        using 2 abc step by (simp add: withPriority_def)
    next
      case 3
      have "insort_key ?f x (?A @ ?B @ ?C) = ?A @ insort_key ?f x (?B @ ?C)"
        using 3 assms pa by (intro insort_key_skip) auto
      also have "insort_key ?f x (?B @ ?C) = ?B @ insort_key ?f x ?C"
        using 3 assms pb by (intro insort_key_skip) auto
      also have "insort_key ?f x ?C = x # ?C"
        using 3 pc by (intro insort_key_front) auto
      finally show ?thesis
        using 3 abc step by (simp add: withPriority_def)
    qed
  qed
qed

lemma sortStage_priority_asc:
  "sortStage ''priority-asc'' ts
     = withPriority Low ts @ withPriority Medium ts @ withPriority High ts"
proof -
  have "sortRank ''priority-asc'' = (\<lambda>t. (\<lambda>p. - prioMapAsc p) (priority t))"
    by (rule ext) (simp add: sortRank_def)
  then show ?thesis
    unfolding sortStage_sort_key
    by (simp only: sort_key_three_groups [of "\<lambda>p. - prioMapAsc p" Low Medium High, simplified])
qed

lemma sortStage_priority_desc:
  "sortStage ''priority-desc'' ts
     = withPriority High ts @ withPriority Medium ts @ withPriority Low ts"
proof -
  have "sortRank ''priority-desc'' = (\<lambda>t. (\<lambda>p. - prioMapDesc p) (priority t))"
    by (rule ext) (simp add: sortRank_def)
  then show ?thesis
    unfolding sortStage_sort_key
    by (simp only: sort_key_three_groups [of "\<lambda>p. - prioMapDesc p" High Medium Low, simplified])
qed

lemma view_eval:
  "getFilteredAndSortedTasks (noQuery sv) ts = sortStage sv ts"
  by (simp add: getFilteredAndSortedTasks_def noQuery_def trim_def toLowerCase_def searchStage_def
      filterStage_def)

subsection \<open>\<open>findIndex\<close> and the array operations\<close>

lemma findIndex_None: "findIndex P xs = None \<longleftrightarrow> (\<forall>x\<in>set xs. \<not> P x)"
  by (induction xs) auto

lemma findIndex_Some:
  "findIndex P xs = Some k \<Longrightarrow> k < length xs \<and> P (xs ! k) \<and> (\<forall>j<k. \<not> P (xs ! j))"
proof (induction xs arbitrary: k)
  case Nil
  then show ?case by simp
next
  case (Cons x xs)
  show ?case
  proof (cases "P x")
    case True
    with Cons.prems show ?thesis by simp
  next
    case False
    with Cons.prems obtain k' where k': "findIndex P xs = Some k'" "k = Suc k'"
      by auto
    from Cons.IH [OF k'(1)] False k'(2) show ?thesis
      by (auto simp: nth_Cons split: nat.splits)
  qed
qed

lemma findIndex_update:
  "findIndex P xs = Some k \<Longrightarrow> P y \<Longrightarrow> findIndex P (xs[k := y]) = Some k"
proof (induction xs arbitrary: k)
  case Nil
  then show ?case by simp
next
  case (Cons x xs)
  then show ?case
    by (cases "P x") auto
qed

lemma flip_flip: "flip (flip st) = st"
  by (cases st) (simp_all add: flip_def)

lemma flip_neq: "flip st \<noteq> st"
  by (cases st) (simp_all add: flip_def)

lemma toggle_found:
  assumes "findIndex (\<lambda>t. id_t t = i) (tasks s) = Some k"
  shows "toggleTaskStatus i s =
           Inr (s\<lparr> tasks := (tasks s)[k := (tasks s ! k)\<lparr>status := flip (status (tasks s ! k))\<rparr>],
                    saved := Some ((tasks s)[k := (tasks s ! k)\<lparr>status := flip (status (tasks s ! k))\<rparr>]),
                    toasts := toasts s @ [(''Task marked as ''
                                @ statusName (flip (status (tasks s ! k))) @ ''.'', ''info'')] \<rparr>)"
  using assms by (simp add: toggleTaskStatus_def Let_def saveTasks_def showToast_def flip_def)

lemma toggle_absent:
  assumes "findIndex (\<lambda>t. id_t t = i) (tasks s) = None"
  shows "toggleTaskStatus i s = Inr s"
  using assms by (simp add: toggleTaskStatus_def)

lemma update_found:
  assumes "findIndex (\<lambda>t. id_t t = i) (tasks s) = Some k"
  shows "updateTask i u s =
           Inr (s\<lparr> tasks := (tasks s)[k := spread (tasks s ! k) u],
                    saved := Some ((tasks s)[k := spread (tasks s ! k) u]),
                    toasts := toasts s @ [(''Task updated successfully.'', ''info'')] \<rparr>)"
  using assms by (simp add: updateTask_def Let_def saveTasks_def showToast_def)

lemma update_absent:
  assumes "findIndex (\<lambda>t. id_t t = i) (tasks s) = None"
  shows "updateTask i u s = Inr s"
  using assms by (simp add: updateTask_def)

lemma spread_noData: "spread t noData = t"
  by (simp add: spread_def noData_def)

lemma addTask_result:
  "addTask nowId nowCreated d s =
     Inr (s\<lparr> tasks := newTask nowId nowCreated d # tasks s,
              saved := Some (newTask nowId nowCreated d # tasks s),
              toasts := toasts s @ [(''Task added successfully!'', ''success'')] \<rparr>)"
  by (simp add: addTask_def newTask_def Let_def saveTasks_def showToast_def)

subsection \<open>Evaluation of \<open>JSON.parse\<close>\<close>








section \<open>The claims\<close>

subsection \<open>C1: startup\<close>




subsection \<open>C2: the two priority sorts\<close>

text \<open>
  C2 says that \<open>priority-asc\<close> and \<open>priority-desc\<close> give the same ordering. They do not:
  on a High task followed by a Low one, \<open>priority-desc\<close> keeps the order and
  \<open>priority-asc\<close> reverses it.
\<close>

theorem priority_asc_differs_from_desc:
  "getFilteredAndSortedTasks (noQuery ''priority-asc'') [taskA, taskB] = [taskB, taskA]
   \<and> getFilteredAndSortedTasks (noQuery ''priority-desc'') [taskA, taskB] = [taskA, taskB]
   \<and> getFilteredAndSortedTasks (noQuery ''priority-asc'') [taskA, taskB]
       \<noteq> getFilteredAndSortedTasks (noQuery ''priority-desc'') [taskA, taskB]"
  by (simp add: view_eval sortStage_priority_asc sortStage_priority_desc withPriority_def
      taskA_def taskB_def)

text \<open>
  C2, amended: \<open>priority-asc\<close> orders the view Low first: the Low tasks, then the Medium,
  then the High ones, each group in the order of the unsorted view. \<open>priority-desc\<close>
  orders it High first: the High tasks, then the Medium, then the Low ones.
\<close>

theorem priority_asc_low_first:
  "getFilteredAndSortedTasks (ui\<lparr>taskSortSelect := ''priority-asc''\<rparr>) ts
     = (let v = getFilteredAndSortedTasks (ui\<lparr>taskSortSelect := ''none''\<rparr>) ts
        in withPriority Low v @ withPriority Medium v @ withPriority High v)
   \<and> getFilteredAndSortedTasks (ui\<lparr>taskSortSelect := ''priority-desc''\<rparr>) ts
     = (let v = getFilteredAndSortedTasks (ui\<lparr>taskSortSelect := ''none''\<rparr>) ts
        in withPriority High v @ withPriority Medium v @ withPriority Low v)"
proof -
  have "sortStage ''none'' v = v" for v
    by (rule sortStage_unknown) simp
  then show ?thesis
    by (simp add: getFilteredAndSortedTasks_def Let_def sortStage_priority_asc
        sortStage_priority_desc)
qed

text \<open>The amended C2 on a High, a Low and another High task.\<close>

theorem priority_asc_low_first_witness:
  "getFilteredAndSortedTasks (noQuery ''priority-asc'') [taskA, taskB, taskC] = [taskB, taskA, taskC]
   \<and> getFilteredAndSortedTasks (noQuery ''priority-desc'') [taskA, taskB, taskC]
       = [taskA, taskC, taskB]"
proof -
  have v: "getFilteredAndSortedTasks (noQuery ''none'') [taskA, taskB, taskC] = [taskA, taskB, taskC]"
    unfolding view_eval by (rule sortStage_unknown) simp
  have a: "(noQuery ''none'')\<lparr>taskSortSelect := ''priority-asc''\<rparr> = noQuery ''priority-asc''"
    and d: "(noQuery ''none'')\<lparr>taskSortSelect := ''priority-desc''\<rparr> = noQuery ''priority-desc''"
    and n: "(noQuery ''none'')\<lparr>taskSortSelect := ''none''\<rparr> = noQuery ''none''"
    by (simp_all add: noQuery_def)
  have p: "priority taskA = High" "priority taskB = Low" "priority taskC = High"
    by (simp_all add: taskA_def taskB_def taskC_def)
  show ?thesis
    using priority_asc_low_first [of "noQuery ''none''" "[taskA, taskB, taskC]"]
    unfolding a d n v by (simp add: withPriority_def p)
qed

subsection \<open>C3: task ids\<close>

text \<open>
  C3 says that two tasks never share an id, even when created in the same millisecond.
  \<open>generateUniqueId\<close> is documented as returning a unique id, but it returns only the
  clock reading: two calls of \<open>addTask\<close> at the clock reading 1700000000000 leave two
  tasks with the id \<open>1700000000000\<close> in the collection.
\<close>

theorem same_millisecond_same_id:
  "\<exists>s1 s2. addTask 1700000000000 1700000000000 milkData emptyStore = Inr s1
      \<and> addTask 1700000000000 1700000000000 breadData s1 = Inr s2
      \<and> map id_t (tasks s2) = [''1700000000000'', ''1700000000000'']
      \<and> map title (tasks s2) = [''Buy bread'', ''Buy milk'']
      \<and> \<not> distinct (map id_t (tasks s2))"
  by (simp add: addTask_result newTask_def generateUniqueId_def toString_now emptyStore_def
      milkData_def breadData_def)

subsection \<open>C4: a title that is empty after trimming\<close>

text \<open>
  C4 says that creating a task with a blank title fails with \<open>ValidationError\<close>. The form
  handler returns normally instead, and \<open>addTask\<close> itself, given an empty title, adds the
  task.
\<close>

theorem empty_title_no_error:
  "handleTaskFormSubmit 1700000000000 1700000000000 blankForm store1 \<noteq> Inl ValidationError
   \<and> handleTaskFormSubmit 1700000000000 1700000000000 blankForm store1 = Inr store1
   \<and> addTask 1700000000000 1700000000000 emptyTitleData store1 \<noteq> Inl ValidationError
   \<and> addTask 1700000000000 1700000000000 emptyTitleData store1 \<noteq> Inr store1"
  by (simp add: handleTaskFormSubmit_def blankForm_def trim_blank addTask_result store1_def)

text \<open>
  C4, amended: for every form whose title is empty after trimming, \<open>handleTaskFormSubmit\<close>
  returns normally and leaves the collection, the persisted array and the toasts exactly as
  they were: no task is added, nothing is persisted, and no error is raised or shown.
\<close>

theorem empty_title_ignored:
  assumes "trim (taskTitleInput form) = []"
  shows "handleTaskFormSubmit nowId nowCreated form s = Inr s"
  using assms by (simp add: handleTaskFormSubmit_def)

text \<open>The amended C4 on a title of three spaces.\<close>

theorem empty_title_ignored_witness:
  "trim (taskTitleInput blankForm) = []
   \<and> handleTaskFormSubmit 1700000000000 1700000000001 blankForm store1 = Inr store1"
proof -
  have h: "trim (taskTitleInput blankForm) = []"
    by (simp add: blankForm_def trim_blank)
  show ?thesis
    using h empty_title_ignored [OF h] by simp
qed

subsection \<open>C5: an id that is not in the collection\<close>

text \<open>
  C5 says that \<open>updateTask\<close> and \<open>toggleTaskStatus\<close> fail with \<open>NotFoundError\<close> on an
  absent id and report the failure. Both return normally, with the state as it was and no
  toast.
\<close>

theorem absent_id_not_reported:
  "toggleTaskStatus ''2'' store1 \<noteq> Inl NotFoundError
   \<and> updateTask ''2'' noData store1 \<noteq> Inl NotFoundError
   \<and> toggleTaskStatus ''2'' store1 = Inr store1
   \<and> updateTask ''2'' noData store1 = Inr store1"
  by (simp add: toggleTaskStatus_def updateTask_def store1_def task1_def)

text \<open>
  C5, amended: for every id that no task of the collection has, \<open>toggleTaskStatus\<close> and
  \<open>updateTask\<close> are silent no-ops: they return normally and leave the collection, the
  persisted array and the toasts exactly unchanged.
\<close>

theorem absent_id_silent_noop:
  assumes "i \<notin> id_t ` set (tasks s)"
  shows "toggleTaskStatus i s = Inr s \<and> updateTask i u s = Inr s"
proof -
  have "findIndex (\<lambda>t. id_t t = i) (tasks s) = None"
    using assms by (auto simp: findIndex_None)
  then show ?thesis
    by (simp add: toggle_absent update_absent)
qed

text \<open>The amended C5 on the id \<open>2\<close> in a collection that holds only the task \<open>1\<close>.\<close>

theorem absent_id_silent_noop_witness:
  "''2'' \<notin> id_t ` set (tasks store1)
   \<and> toggleTaskStatus ''2'' store1 = Inr store1
   \<and> updateTask ''2'' (noData\<lparr>title_u := Some ''x''\<rparr>) store1 = Inr store1"
proof -
  have h: "''2'' \<notin> id_t ` set (tasks store1)"
    by (simp add: store1_def task1_def)
  show ?thesis
    using h absent_id_silent_noop [OF h, of "noData\<lparr>title_u := Some ''x''\<rparr>"] by simp
qed

subsection \<open>C6: what an update changes\<close>

text \<open>
  C6 says that an update leaves \<open>id\<close> and \<open>createdAt\<close> as they were, whatever the partial
  holds. The spread copies every property of the partial: one that carries \<open>id\<close> and
  \<open>createdAt\<close> replaces both.
\<close>

theorem update_can_change_id:
  "updateTask ''1'' (noData\<lparr>id_u := Some ''2'', createdAt_u := Some 5\<rparr>) store1
     = Inr \<lparr> tasks = [task1\<lparr>id_t := ''2'', createdAt := 5\<rparr>],
             saved = Some [task1\<lparr>id_t := ''2'', createdAt := 5\<rparr>],
             toasts = [(''Task updated successfully.'', ''info'')] \<rparr>
   \<and> id_t (task1\<lparr>id_t := ''2'', createdAt := 5\<rparr>) \<noteq> id_t task1
   \<and> createdAt (task1\<lparr>id_t := ''2'', createdAt := 5\<rparr>) \<noteq> createdAt task1"
  by (simp add: updateTask_def store1_def task1_def noData_def spread_def saveTasks_def showToast_def)

text \<open>
  C6, amended: for the first task with the given id, an update replaces exactly the fields
  that the partial provides, each by the partial's value, and keeps every other field; it
  leaves every other task unchanged, and persists the collection. So \<open>id\<close> and
  \<open>createdAt\<close> keep their values when the partial provides neither, and take the
  partial's values when it provides them. An update with the empty partial leaves the
  collection unchanged. \<open>handleEditFormSubmit\<close> replaces the title, the description, the
  priority and the due date of that task by the values of the edit form, and nothing else.
\<close>

theorem update_merges_provided_fields:
  assumes "findIndex (\<lambda>t. id_t t = i) (tasks s) = Some k"
  shows "\<exists>s'. updateTask i u s = Inr s'
      \<and> length (tasks s') = length (tasks s)
      \<and> id_t (tasks s' ! k) = (case id_u u of None \<Rightarrow> id_t (tasks s ! k) | Some v \<Rightarrow> v)
      \<and> title (tasks s' ! k) = (case title_u u of None \<Rightarrow> title (tasks s ! k) | Some v \<Rightarrow> v)
      \<and> description (tasks s' ! k)
          = (case description_u u of None \<Rightarrow> description (tasks s ! k) | Some v \<Rightarrow> v)
      \<and> priority (tasks s' ! k)
          = (case priority_u u of None \<Rightarrow> priority (tasks s ! k) | Some v \<Rightarrow> v)
      \<and> dueDate (tasks s' ! k)
          = (case dueDate_u u of None \<Rightarrow> dueDate (tasks s ! k) | Some v \<Rightarrow> v)
      \<and> status (tasks s' ! k) = (case status_u u of None \<Rightarrow> status (tasks s ! k) | Some v \<Rightarrow> v)
      \<and> createdAt (tasks s' ! k)
          = (case createdAt_u u of None \<Rightarrow> createdAt (tasks s ! k) | Some v \<Rightarrow> v)
      \<and> (\<forall>j<length (tasks s). j \<noteq> k \<longrightarrow> tasks s' ! j = tasks s ! j)
      \<and> saved s' = Some (tasks s')
      \<and> (u = noData \<longrightarrow> tasks s' = tasks s)
      \<and> (\<forall>form. editTaskId form = i \<longrightarrow>
            (\<exists>s''. handleEditFormSubmit form s = Inr s''
               \<and> tasks s'' = (tasks s)[k := (tasks s ! k)
                    \<lparr> title := trim (editTitle form),
                      description := trim (editDescription form),
                      priority := editPriority form,
                      dueDate := Some (editDueDate form) \<rparr>]))"
proof -
  have k: "k < length (tasks s)"
    using findIndex_Some [OF assms] by simp
  let ?s' = "s\<lparr> tasks := (tasks s)[k := spread (tasks s ! k) u],
                 saved := Some ((tasks s)[k := spread (tasks s ! k) u]),
                 toasts := toasts s @ [(''Task updated successfully.'', ''info'')] \<rparr>"
  have r: "updateTask i u s = Inr ?s'"
    by (rule update_found [OF assms])
  have len: "length (tasks ?s') = length (tasks s)"
    by simp
  have at: "tasks ?s' ! k = spread (tasks s ! k) u"
    using k by simp
  have sv: "saved ?s' = Some (tasks ?s')"
    by simp
  have same: "u = noData \<longrightarrow> tasks ?s' = tasks s"
    using k by (simp add: spread_noData list_update_same_conv)
  have others: "\<forall>j<length (tasks s). j \<noteq> k \<longrightarrow> tasks ?s' ! j = tasks s ! j"
    by simp
  have f1: "id_t (spread (tasks s ! k) u) = (case id_u u of None \<Rightarrow> id_t (tasks s ! k) | Some v \<Rightarrow> v)"
    and f2: "title (spread (tasks s ! k) u)
      = (case title_u u of None \<Rightarrow> title (tasks s ! k) | Some v \<Rightarrow> v)"
    and f3: "description (spread (tasks s ! k) u)
      = (case description_u u of None \<Rightarrow> description (tasks s ! k) | Some v \<Rightarrow> v)"
    and f4: "priority (spread (tasks s ! k) u)
      = (case priority_u u of None \<Rightarrow> priority (tasks s ! k) | Some v \<Rightarrow> v)"
    and f5: "dueDate (spread (tasks s ! k) u)
      = (case dueDate_u u of None \<Rightarrow> dueDate (tasks s ! k) | Some v \<Rightarrow> v)"
    and f6: "status (spread (tasks s ! k) u)
      = (case status_u u of None \<Rightarrow> status (tasks s ! k) | Some v \<Rightarrow> v)"
    and f7: "createdAt (spread (tasks s ! k) u)
      = (case createdAt_u u of None \<Rightarrow> createdAt (tasks s ! k) | Some v \<Rightarrow> v)"
    by (simp_all add: spread_def)
  have edit: "\<forall>form. editTaskId form = i \<longrightarrow>
            (\<exists>s''. handleEditFormSubmit form s = Inr s''
               \<and> tasks s'' = (tasks s)[k := (tasks s ! k)
                    \<lparr> title := trim (editTitle form),
                      description := trim (editDescription form),
                      priority := editPriority form,
                      dueDate := Some (editDueDate form) \<rparr>])"
  proof -
    have sp: "spread t \<lparr> id_u = None, title_u = Some a, description_u = Some b,
                         priority_u = Some p, dueDate_u = Some d, status_u = None,
                         createdAt_u = None \<rparr>
        = t\<lparr>title := a, description := b, priority := p, dueDate := d\<rparr>" for t a b p d
      by (intro task.equality) (simp_all add: spread_def)
    show ?thesis
      by (simp add: handleEditFormSubmit_def update_found [OF assms] sp)
  qed
  show ?thesis
    apply (rule exI [of _ ?s'])
    unfolding at f1 f2 f3 f4 f5 f6 f7
    using r len sv same others edit by blast
qed

text \<open>
  The amended C6 on a partial that provides a title and a status, and on the edit form.
\<close>

theorem update_merges_provided_fields_witness:
  "findIndex (\<lambda>t. id_t t = ''1'') (tasks store1) = Some 0
   \<and> (\<exists>s'. updateTask ''1'' (noData\<lparr>title_u := Some ''Buy oat milk'', status_u := Some Completed\<rparr>)
              store1 = Inr s'
         \<and> tasks s' = [task1\<lparr>title := ''Buy oat milk'', status := Completed\<rparr>])
   \<and> (\<exists>s''. handleEditFormSubmit oatEdit store1 = Inr s''
         \<and> tasks s'' = [task1\<lparr>title := ''Buy oat milk'', description := ''1 litre'',
                                priority := High, dueDate := Some []\<rparr>])"
proof -
  let ?u = "noData\<lparr>title_u := Some ''Buy oat milk'', status_u := Some Completed\<rparr>"
  have h: "findIndex (\<lambda>t. id_t t = ''1'') (tasks store1) = Some 0"
    by (simp add: store1_def task1_def)
  have e: "editTaskId oatEdit = ''1''"
    by (simp add: oatEdit_def)
  have t0: "tasks store1 = [task1]"
    by (simp add: store1_def)
  from update_merges_provided_fields [OF h, of ?u]
  obtain s' where r: "updateTask ''1'' ?u store1 = Inr s'"
    and len: "length (tasks s') = length (tasks store1)"
    and f: "id_t (tasks s' ! 0) = (case id_u ?u of None \<Rightarrow> id_t (tasks store1 ! 0) | Some v \<Rightarrow> v)"
      "title (tasks s' ! 0) = (case title_u ?u of None \<Rightarrow> title (tasks store1 ! 0) | Some v \<Rightarrow> v)"
      "description (tasks s' ! 0)
        = (case description_u ?u of None \<Rightarrow> description (tasks store1 ! 0) | Some v \<Rightarrow> v)"
      "priority (tasks s' ! 0)
        = (case priority_u ?u of None \<Rightarrow> priority (tasks store1 ! 0) | Some v \<Rightarrow> v)"
      "dueDate (tasks s' ! 0)
        = (case dueDate_u ?u of None \<Rightarrow> dueDate (tasks store1 ! 0) | Some v \<Rightarrow> v)"
      "status (tasks s' ! 0) = (case status_u ?u of None \<Rightarrow> status (tasks store1 ! 0) | Some v \<Rightarrow> v)"
      "createdAt (tasks s' ! 0)
        = (case createdAt_u ?u of None \<Rightarrow> createdAt (tasks store1 ! 0) | Some v \<Rightarrow> v)"
    by blast
  have "tasks s' ! 0 = task1\<lparr>title := ''Buy oat milk'', status := Completed\<rparr>"
    using f by (intro task.equality) (simp_all add: t0 noData_def)
  moreover have "tasks s' = [tasks s' ! 0]"
    using len by (cases "tasks s'") (simp_all add: t0)
  ultimately have 1: "tasks s' = [task1\<lparr>title := ''Buy oat milk'', status := Completed\<rparr>]"
    by simp
  from update_merges_provided_fields [OF h, of ?u] e
  obtain s'' where r2: "handleEditFormSubmit oatEdit store1 = Inr s''"
    and "tasks s'' = (tasks store1)[0 := (tasks store1 ! 0)
                    \<lparr> title := trim (editTitle oatEdit),
                      description := trim (editDescription oatEdit),
                      priority := editPriority oatEdit,
                      dueDate := Some (editDueDate oatEdit) \<rparr>]"
    by blast
  then have 2: "tasks s'' = [task1\<lparr>title := ''Buy oat milk'', description := ''1 litre'',
                                priority := High, dueDate := Some []\<rparr>]"
    by (simp add: t0 oatEdit_def trim_oat trim_litre)
  show ?thesis
    using h r 1 r2 2 by blast
qed

subsection \<open>C7: creating a task\<close>

text \<open>
  C7: \<open>addTask\<close> always returns, and leaves the previous collection with one new task in
  first position, which carries the given title, description, priority and due date (the
  empty due date as \<open>null\<close>), the status Pending, the id made from the clock and the
  creation time read from the clock; the tasks behind it are the previous ones, unchanged,
  and the new collection is what is persisted. For every form whose trimmed title is not
  empty, \<open>handleTaskFormSubmit\<close> does so with the trimmed title and description.
\<close>

theorem create_prepends:
  "(\<exists>s'. addTask nowId nowCreated d s = Inr s'
       \<and> tasks s' = \<lparr> id_t = generateUniqueId nowId, title = title_d d,
                       description = description_d d, priority = priority_d d,
                       dueDate = (if dueDate_d d = [] then None else Some (dueDate_d d)),
                       status = Pending, createdAt = int nowCreated \<rparr> # tasks s
       \<and> saved s' = Some (tasks s'))
   \<and> (trim (taskTitleInput form) \<noteq> [] \<longrightarrow>
        (\<exists>s'. handleTaskFormSubmit nowId nowCreated form s = Inr s'
           \<and> tasks s' = \<lparr> id_t = generateUniqueId nowId, title = trim (taskTitleInput form),
                           description = trim (taskDescriptionInput form),
                           priority = taskPriorityInput form,
                           dueDate = (if taskDueDateInput form = [] then None
                                      else Some (taskDueDateInput form)),
                           status = Pending, createdAt = int nowCreated \<rparr> # tasks s
           \<and> saved s' = Some (tasks s')))"
  by (simp add: handleTaskFormSubmit_def addTask_result newTask_def Let_def)

text \<open>C7 on a form with the title \<open>Buy milk\<close> between spaces.\<close>

theorem create_prepends_witness:
  "trim (taskTitleInput milkForm) \<noteq> []
   \<and> (\<exists>s'. handleTaskFormSubmit 1700000000000 1700000000001 milkForm store1 = Inr s'
         \<and> tasks s' = [\<lparr> id_t = ''1700000000000'', title = ''Buy milk'',
                           description = ''2 litres'', priority = High,
                           dueDate = Some ''2026-01-05T09:30'', status = Pending,
                           createdAt = 1700000000001 \<rparr>, task1])"
proof -
  have h: "trim (taskTitleInput milkForm) \<noteq> []"
    by (simp add: milkForm_def trim_milk)
  from create_prepends [of 1700000000000 1700000000001 _ store1 milkForm] h
  obtain s' where "handleTaskFormSubmit 1700000000000 1700000000001 milkForm store1 = Inr s'"
    and "tasks s' = \<lparr> id_t = generateUniqueId 1700000000000, title = trim (taskTitleInput milkForm),
                           description = trim (taskDescriptionInput milkForm),
                           priority = taskPriorityInput milkForm,
                           dueDate = (if taskDueDateInput milkForm = [] then None
                                      else Some (taskDueDateInput milkForm)),
                           status = Pending, createdAt = int 1700000000001 \<rparr> # tasks store1"
    by blast
  then show ?thesis
    using h by (simp add: milkForm_def trim_milk trim_litres generateUniqueId_def toString_now store1_def)
qed

subsection \<open>C8: stability of the sort\<close>

text \<open>
  C8: for every sort value, the tasks that the comparator ties with any given task keep
  their relative order in the sorted view; in particular the tasks of one priority keep
  their relative order under \<open>priority-desc\<close>. A sort value that is none of the five
  recognized keys leaves the order exactly as it was.
\<close>

theorem sort_stable:
  "(\<forall>x. filter (\<lambda>t. comparator sv x t = 0) (sortStage sv ts) = filter (\<lambda>t. comparator sv x t = 0) ts)
   \<and> (\<forall>p. filter (\<lambda>t. priority t = p) (sortStage ''priority-desc'' ts) = filter (\<lambda>t. priority t = p) ts)
   \<and> (sv \<notin> {''date-desc'', ''date-asc'', ''priority-desc'', ''priority-asc'', ''status-desc''}
        \<longrightarrow> sortStage sv ts = ts)"
proof (intro conjI allI impI)
  fix x
  have "(\<lambda>t. comparator sv x t = 0) = (\<lambda>t. sortRank sv t = sortRank sv x)"
    by (auto simp: comparator_rank)
  then show "filter (\<lambda>t. comparator sv x t = 0) (sortStage sv ts) = filter (\<lambda>t. comparator sv x t = 0) ts"
    by (simp add: sortStage_sort_key sort_key_stable)
next
  fix p
  have "(\<lambda>t. priority t = p) = (\<lambda>t. sortRank ''priority-desc'' t = - prioMapDesc p)"
  proof
    fix t show "(priority t = p) = (sortRank ''priority-desc'' t = - prioMapDesc p)"
      by (cases "priority t"; cases p) (simp_all add: sortRank_def)
  qed
  then show "filter (\<lambda>t. priority t = p) (sortStage ''priority-desc'' ts) = filter (\<lambda>t. priority t = p) ts"
    by (simp add: sortStage_sort_key sort_key_stable)
next
  assume "sv \<notin> {''date-desc'', ''date-asc'', ''priority-desc'', ''priority-asc'', ''status-desc''}"
  then show "sortStage sv ts = ts"
    by (rule sortStage_unknown)
qed

text \<open>
  C8 on the sort value \<open>none\<close>, and on two High tasks around a Low one under
  \<open>priority-desc\<close>.
\<close>

theorem sort_stable_witness:
  "''none'' \<notin> {''date-desc'', ''date-asc'', ''priority-desc'', ''priority-asc'', ''status-desc''}
   \<and> sortStage ''none'' [taskB, taskA, taskC] = [taskB, taskA, taskC]
   \<and> filter (\<lambda>t. priority t = High) (sortStage ''priority-desc'' [taskA, taskB, taskC])
       = [taskA, taskC]"
proof -
  have h: "''none'' \<notin> {''date-desc'', ''date-asc'', ''priority-desc'', ''priority-asc'', ''status-desc''}"
    by simp
  have p: "priority taskA = High" "priority taskB = Low" "priority taskC = High"
    by (simp_all add: taskA_def taskB_def taskC_def)
  from sort_stable [of "''none''" "[taskB, taskA, taskC]"] h
  have 1: "sortStage ''none'' [taskB, taskA, taskC] = [taskB, taskA, taskC]"
    by blast
  from sort_stable [of "''none''" "[taskA, taskB, taskC]"]
  have "filter (\<lambda>t. priority t = High) (sortStage ''priority-desc'' [taskA, taskB, taskC])
      = filter (\<lambda>t. priority t = High) [taskA, taskB, taskC]"
    by blast
  then have 2: "filter (\<lambda>t. priority t = High) (sortStage ''priority-desc'' [taskA, taskB, taskC])
      = [taskA, taskC]"
    by (simp add: p)
  show ?thesis
    using h 1 2 by simp
qed

subsection \<open>C9: toggling twice\<close>

text \<open>
  C9: \<open>toggleTaskStatus\<close> always returns. Two calls in a row with the same id give back
  the collection that was there before the first. After the first call every task equals
  the task it was in every field other than \<open>status\<close>; when the id is in the collection,
  the first task that has it has its status flipped by the first call and restored by the
  second, and every other task is unchanged.
\<close>

theorem toggle_twice:
  "\<exists>s1 s2. toggleTaskStatus i s = Inr s1 \<and> toggleTaskStatus i s1 = Inr s2
      \<and> tasks s2 = tasks s
      \<and> map (\<lambda>t. t\<lparr>status := Pending\<rparr>) (tasks s1) = map (\<lambda>t. t\<lparr>status := Pending\<rparr>) (tasks s)
      \<and> (\<forall>k. findIndex (\<lambda>t. id_t t = i) (tasks s) = Some k \<longrightarrow>
            status (tasks s1 ! k) \<noteq> status (tasks s ! k)
            \<and> status (tasks s2 ! k) = status (tasks s ! k)
            \<and> (\<forall>j<length (tasks s). j \<noteq> k \<longrightarrow> tasks s1 ! j = tasks s ! j))"
proof (cases "findIndex (\<lambda>t. id_t t = i) (tasks s)")
  case None
  then show ?thesis by (simp add: toggle_absent)
next
  case (Some k)
  let ?ts = "tasks s"
  let ?t' = "(?ts ! k)\<lparr>status := flip (status (?ts ! k))\<rparr>"
  define s1 where "s1 = s\<lparr> tasks := ?ts[k := ?t'], saved := Some (?ts[k := ?t']),
     toasts := toasts s @ [(''Task marked as '' @ statusName (flip (status (?ts ! k))) @ ''.'', ''info'')] \<rparr>"
  have k: "k < length ?ts" "id_t (?ts ! k) = i"
    using findIndex_Some [OF Some] by simp_all
  have r1: "toggleTaskStatus i s = Inr s1"
    unfolding s1_def by (rule toggle_found [OF Some])
  have ts1: "tasks s1 = ?ts[k := ?t']"
    by (simp add: s1_def)
  have "findIndex (\<lambda>t. id_t t = i) (tasks s1) = Some k"
    unfolding ts1 using Some k by (intro findIndex_update) simp_all
  from toggle_found [OF this] obtain s2 where r2: "toggleTaskStatus i s1 = Inr s2"
    and ts2: "tasks s2 = (tasks s1)[k := (tasks s1 ! k)\<lparr>status := flip (status (tasks s1 ! k))\<rparr>]"
    by simp
  have restored: "tasks s2 = ?ts"
    unfolding ts2 ts1 using k by (simp add: flip_flip list_update_same_conv)
  have rest: "map (\<lambda>t. t\<lparr>status := Pending\<rparr>) (tasks s1) = map (\<lambda>t. t\<lparr>status := Pending\<rparr>) ?ts"
    unfolding ts1 using k by (simp add: map_update list_update_same_conv)
  have at_k: "status (tasks s1 ! k) \<noteq> status (?ts ! k)"
    unfolding ts1 using k by (simp add: flip_neq)
  have others: "\<forall>j<length ?ts. j \<noteq> k \<longrightarrow> tasks s1 ! j = ?ts ! j"
    unfolding ts1 by simp
  show ?thesis
    using r1 r2 restored rest at_k others Some by auto
qed

text \<open>C9 on the task \<open>1\<close>, which is Pending.\<close>

theorem toggle_twice_witness:
  "findIndex (\<lambda>t. id_t t = ''1'') (tasks store1) = Some 0
   \<and> (\<exists>s1 s2. toggleTaskStatus ''1'' store1 = Inr s1 \<and> toggleTaskStatus ''1'' s1 = Inr s2
         \<and> status (tasks s1 ! 0) = Completed \<and> tasks s2 = [task1])"
proof -
  have h: "findIndex (\<lambda>t. id_t t = ''1'') (tasks store1) = Some 0"
    by (simp add: store1_def task1_def)
  have t: "tasks store1 = [task1]" "status task1 = Pending"
    by (simp_all add: store1_def task1_def)
  from toggle_twice [of "''1''" store1] h
  obtain s1 s2 where "toggleTaskStatus ''1'' store1 = Inr s1" "toggleTaskStatus ''1'' s1 = Inr s2"
    "tasks s2 = tasks store1" "status (tasks s1 ! 0) \<noteq> status (tasks store1 ! 0)"
    by blast
  moreover from this have "status (tasks s1 ! 0) = Completed"
    by (cases "status (tasks s1 ! 0)") (simp_all add: t)
  ultimately show ?thesis
    using h t by auto
qed

subsection \<open>C10: an unrecognized filter value\<close>

text \<open>
  C10: a filter value that is not \<open>All\<close>, \<open>Completed\<close> or \<open>Pending\<close> and does not start
  with \<open>Priority-\<close> filters nothing out: the filter stage returns its input, as it does for
  \<open>All\<close>.
\<close>

theorem unknown_filter:
  assumes "fv \<noteq> ''All''" "fv \<noteq> ''Completed''" "fv \<noteq> ''Pending''" "\<not> startsWith fv ''Priority-''"
  shows "filterStage fv ts = ts \<and> filterStage fv ts = filterStage ''All'' ts"
  using assms by (simp add: filterStage_def)

text \<open>C10 on the filter value \<open>Overdue\<close>, next to \<open>Completed\<close>, which does filter.\<close>

theorem unknown_filter_witness:
  "''Overdue'' \<noteq> ''All'' \<and> ''Overdue'' \<noteq> ''Completed'' \<and> ''Overdue'' \<noteq> ''Pending''
   \<and> \<not> startsWith ''Overdue'' ''Priority-''
   \<and> filterStage ''Overdue'' [task1] = [task1]
   \<and> filterStage ''Completed'' [task1] = []"
proof -
  have h: "''Overdue'' \<noteq> ''All''" "''Overdue'' \<noteq> ''Completed''" "''Overdue'' \<noteq> ''Pending''"
    "\<not> startsWith ''Overdue'' ''Priority-''"
    by simp_all
  have "filterStage ''Completed'' [task1] = []"
    by (simp add: filterStage_def task1_def)
  then show ?thesis
    using h unknown_filter [OF h, of "[task1]"] by simp
qed

end
